theory Spec2Isabelle
  imports Complex_Main "HOL-Library.Word"
begin

section \<open>Python values that reach the handlers\<close>

text \<open>
  A request body is a JSON object; \<open>request.get_json()\<close> hands it to the handler as a
  Python dict whose values are \<open>None\<close>, \<open>bool\<close>, \<open>int\<close>, \<open>float\<close>, \<open>str\<close>, \<open>list\<close> or
  \<open>dict\<close>. A float is finite (a rational), infinite or not a number.
\<close>

datatype pyfloat = Finite rat | Infinity bool | NaN

datatype json =
    JNull
  | JBool bool
  | JInt int
  | JFloat pyfloat
  | JStr string
  | JList "json list"
  | JObj "(string \<times> json) list"

type_synonym pydict = "(string \<times> json) list"

text \<open>\<open>key in data\<close>, \<open>data[key]\<close> after that test, and \<open>data.get(key, default)\<close>.\<close>

definition has_key :: "pydict \<Rightarrow> string \<Rightarrow> bool" where
  "has_key data k = (map_of data k \<noteq> None)"

definition dict_get :: "pydict \<Rightarrow> string \<Rightarrow> json \<Rightarrow> json" where
  "dict_get data k dflt = (case map_of data k of None \<Rightarrow> dflt | Some v \<Rightarrow> v)"


text \<open>The exceptions a handler can let escape, and \<open>abort(404)\<close> of \<open>get_or_404\<close>.\<close>

datatype exc = NotFound | AttributeError | ValueError | TypeError | OverflowError | IntegrityError

text \<open>
  The builtin \<open>int(v)\<close>. On a string it follows the interpreter's grammar of integer
  literals, which is no part of this repository: \<open>parse\<close> stands for it and answers
  \<open>None\<close> where \<open>int\<close> raises \<open>ValueError\<close>. A float is truncated towards zero.
\<close>

fun py_int :: "(string \<Rightarrow> int option) \<Rightarrow> json \<Rightarrow> exc + int" where
  "py_int parse JNull = Inl TypeError"
| "py_int parse (JBool b) = Inr (if b then 1 else 0)"
| "py_int parse (JInt i) = Inr i"
| "py_int parse (JFloat (Finite q)) = Inr (if 0 \<le> q then \<lfloor>q\<rfloor> else \<lceil>q\<rceil>)"
| "py_int parse (JFloat (Infinity _)) = Inl OverflowError"
| "py_int parse (JFloat NaN) = Inl ValueError"
| "py_int parse (JStr s) = (case parse s of None \<Rightarrow> Inl ValueError | Some i \<Rightarrow> Inr i)"
| "py_int parse (JList _) = Inl TypeError"
| "py_int parse (JObj _) = Inl TypeError"

text \<open>Truth value of a Python object, as \<open>if v\<close> and \<open>not v\<close> read it.\<close>

fun truthy :: "json \<Rightarrow> bool" where
  "truthy JNull = False"
| "truthy (JBool b) = b"
| "truthy (JInt i) = (i \<noteq> 0)"
| "truthy (JFloat f) = (f \<noteq> Finite 0)"
| "truthy (JStr s) = (s \<noteq> [])"
| "truthy (JList xs) = (xs \<noteq> [])"
| "truthy (JObj kvs) = (kvs \<noteq> [])"

text \<open>
  An instance of \<open>parse\<close> for concrete requests: an optional sign and ASCII decimal
  digits.
\<close>

definition digit_val :: "char \<Rightarrow> nat option" where
  "digit_val c =
     (let n = (of_char c :: nat) in if 48 \<le> n \<and> n \<le> 57 then Some (n - 48) else None)"

fun digits_val :: "nat \<Rightarrow> string \<Rightarrow> nat option" where
  "digits_val acc [] = Some acc"
| "digits_val acc (c # cs) =
     (case digit_val c of None \<Rightarrow> None | Some d \<Rightarrow> digits_val (10 * acc + d) cs)"

definition decimal_literal :: "string \<Rightarrow> int option" where
  "decimal_literal s =
     (case s of
        [] \<Rightarrow> None
      | c # cs \<Rightarrow>
          if c = CHR ''-'' then (if cs = [] then None else map_option (\<lambda>n. - int n) (digits_val 0 cs))
          else if c = CHR ''+'' then (if cs = [] then None else map_option int (digits_val 0 cs))
          else map_option int (digits_val 0 s))"

section \<open>Rendering\<close>

text \<open>
  Money is \<open>Numeric(10, 2)\<close>: a \<open>Decimal\<close> with two fractional digits, held here as the
  integer count of hundredths. \<open>str\<close> of it prints the sign, the units, a point and two
  digits.
\<close>

type_synonym decimal = int

definition digit_char :: "nat \<Rightarrow> char" where
  "digit_char n = ''0123456789abcdef'' ! n"

function str_nat :: "nat \<Rightarrow> string" where
  "str_nat n = (if n < 10 then [digit_char n] else str_nat (n div 10) @ [digit_char (n mod 10)])"
  by pat_completeness auto
termination
  by (relation "measure id") auto

declare str_nat.simps [simp del]

definition zfill :: "nat \<Rightarrow> string \<Rightarrow> string" where
  "zfill w s = replicate (w - length s) CHR ''0'' @ s"

definition str_decimal :: "decimal \<Rightarrow> string" where
  "str_decimal d =
     (if d < 0 then ''-'' else '''') @ str_nat (nat \<bar>d\<bar> div 100) @ ''.'' @
     zfill 2 (str_nat (nat \<bar>d\<bar> mod 100))"

text \<open>A naive UTC \<open>datetime\<close> and its \<open>isoformat()\<close>.\<close>

record datetime =
  dt_year :: nat
  dt_month :: nat
  dt_day :: nat
  dt_hour :: nat
  dt_minute :: nat
  dt_second :: nat
  dt_microsecond :: nat

definition isoformat :: "datetime \<Rightarrow> string" where
  "isoformat t =
     zfill 4 (str_nat (dt_year t)) @ ''-'' @ zfill 2 (str_nat (dt_month t)) @ ''-'' @
     zfill 2 (str_nat (dt_day t)) @ ''T'' @ zfill 2 (str_nat (dt_hour t)) @ '':'' @
     zfill 2 (str_nat (dt_minute t)) @ '':'' @ zfill 2 (str_nat (dt_second t)) @
     (if dt_microsecond t = 0 then '''' else ''.'' @ zfill 6 (str_nat (dt_microsecond t)))"

text \<open>
  \<open>uuid.uuid4().hex[:8].upper()\<close>: the identifier is 128 random bits, \<open>hex\<close> prints its 32
  nibbles from the most significant one, in lower case.
\<close>

type_synonym uuid = "128 word"

definition uuid_hex :: "uuid \<Rightarrow> string" where
  "uuid_hex u = map (\<lambda>i. digit_char (unat (drop_bit (4 * (31 - i)) u) mod 16)) [0..<32]"

definition upper_char :: "char \<Rightarrow> char" where
  "upper_char c =
     (let n = (of_char c :: nat) in if 97 \<le> n \<and> n \<le> 122 then char_of (n - 32) else c)"

definition upper :: "string \<Rightarrow> string" where
  "upper s = map upper_char s"

section \<open>The persistent data model\<close>

text \<open>
  One record per model class of \<open>models.py\<close>, one field per column, the field named after
  the column with the table's initial in front. A column that may be \<open>NULL\<close> and has no
  default is an option. Text that a handler copies from the request body without looking
  at it (the address lines, the comment of a review) is kept as the value received.
\<close>

record user =
  u_id :: int
  u_username :: string
  u_email :: string
  u_password :: string
  u_first_name :: "string option"
  u_last_name :: "string option"
  u_is_active :: bool
  u_is_admin :: bool
  u_created_at :: datetime
  u_updated_at :: datetime

record product =
  p_id :: int
  p_name :: string
  p_description :: "string option"
  p_price :: decimal
  p_stock :: int
  p_sku :: "string option"
  p_is_active :: bool
  p_created_at :: datetime
  p_updated_at :: datetime
  p_category_id :: "int option"

record address =
  a_id :: int
  a_street :: json
  a_city :: json
  a_state :: json
  a_country :: json
  a_zip_code :: json
  a_is_default :: bool
  a_address_type :: json
  a_user_id :: int

record category =
  c_id :: int
  c_name :: string
  c_description :: "string option"

record order =
  o_id :: int
  o_order_number :: string
  o_status :: string
  o_total_amount :: decimal
  o_created_at :: datetime
  o_updated_at :: datetime
  o_user_id :: int
  o_shipping_address_id :: "int option"
  o_billing_address_id :: "int option"

record order_item =
  oi_id :: int
  oi_quantity :: int
  oi_price :: decimal
  oi_order_id :: int
  oi_product_id :: int

record review =
  r_id :: int
  r_rating :: int
  r_comment :: json
  r_created_at :: datetime
  r_user_id :: int
  r_product_id :: int

record cart_item =
  ci_id :: int
  ci_quantity :: int
  ci_added_at :: datetime
  ci_user_id :: int
  ci_product_id :: int

record product_image =
  pi_id :: int
  pi_image_url :: string
  pi_alt_text :: "string option"
  pi_is_primary :: bool
  pi_product_id :: int

text \<open>The database: each table is the list of its rows, in the order a query yields them.\<close>

record db =
  users :: "user list"
  products :: "product list"
  addresses :: "address list"
  categories :: "category list"
  orders :: "order list"
  order_items :: "order_item list"
  reviews :: "review list"
  cart_items :: "cart_item list"
  product_images :: "product_image list"

text \<open>
  The key an insert gives a new row: one more than the largest key of the table, 1 in an
  empty table.
\<close>

definition next_id :: "int list \<Rightarrow> int" where
  "next_id ids = (case ids of [] \<Rightarrow> 1 | i # rest \<Rightarrow> fold max rest i + 1)"

text \<open>
  \<open>filter_by(id=v)\<close> with a value taken from the request body: the row whose integer key
  is that JSON integer.
\<close>

definition key_eq :: "int \<Rightarrow> json \<Rightarrow> bool" where
  "key_eq i v = (v = JInt i)"

section \<open>Responses and the error handlers\<close>

record response =
  status :: nat
  body :: json

definition jsonify :: "json \<Rightarrow> nat \<Rightarrow> response" where
  "jsonify b code = \<lparr>status = code, body = b\<rparr>"

definition error_json :: "string \<Rightarrow> json" where
  "error_json msg = JObj [(''error'', JStr msg)]"

definition not_found :: response where
  "not_found = jsonify (error_json ''Not found'') 404"

definition bad_request :: response where
  "bad_request = jsonify (error_json ''Bad request'') 400"

definition server_error :: response where
  "server_error = jsonify (error_json ''Internal server error'') 500"

text \<open>
  A handler either raises or returns a response together with the database it leaves. What
  it has not committed when it raises is dropped with the session, so the database is then
  the one the request found; \<open>abort(404)\<close> goes to \<open>not_found\<close>, any other exception to
  \<open>server_error\<close>.
\<close>

type_synonym handler_result = "exc + response \<times> db"

definition dispatch :: "handler_result \<Rightarrow> db \<Rightarrow> response \<times> db" where
  "dispatch r db =
     (case r of
        Inl NotFound \<Rightarrow> (not_found, db)
      | Inl _ \<Rightarrow> (server_error, db)
      | Inr out \<Rightarrow> out)"

section \<open>Cart routes\<close>

text \<open>
  A changed attribute of a loaded row is written by \<open>commit()\<close> as an update of that
  column in the rows with the row's key; \<open>session.delete\<close> removes the rows with the key.
\<close>

text \<open>
  \<open>cart_item.product\<close>: the product the foreign key of the cart item names, \<open>None\<close> where
  the table has no such row.
\<close>

definition cart_item_product :: "db \<Rightarrow> cart_item \<Rightarrow> product option" where
  "cart_item_product db cart_item = find (\<lambda>p. p_id p = ci_product_id cart_item) (products db)"

text \<open>The cart of a user, as \<open>CartItem.query.filter_by(user_id=...).all()\<close> yields it.\<close>

definition cart_of :: "db \<Rightarrow> int \<Rightarrow> cart_item list" where
  "cart_of db uid = filter (\<lambda>c. ci_user_id c = uid) (cart_items db)"

definition add_to_cart ::
  "(string \<Rightarrow> int option) \<Rightarrow> datetime \<Rightarrow> int \<Rightarrow> pydict \<Rightarrow> db \<Rightarrow> handler_result" where
  "add_to_cart parse now current_user_id data db =
     (if \<not> has_key data ''product_id'' \<or> \<not> has_key data ''quantity'' then
        Inr (jsonify (error_json ''Product ID and quantity are required'') 400, db)
      else
        let product_id = dict_get data ''product_id'' JNull in
        case py_int parse (dict_get data ''quantity'' JNull) of
          Inl e \<Rightarrow> Inl e
        | Inr quantity \<Rightarrow>
            (case find (\<lambda>p. key_eq (p_id p) product_id \<and> p_is_active p) (products db) of
               None \<Rightarrow> Inr (jsonify (error_json ''Product not found or unavailable'') 404, db)
             | Some product \<Rightarrow>
                 if quantity \<le> 0 then
                   Inr (jsonify (error_json ''Quantity must be greater than zero'') 400, db)
                 else if p_stock product < quantity then
                   Inr (jsonify (error_json ''Not enough stock available'') 400, db)
                 else
                   (case find (\<lambda>c. ci_user_id c = current_user_id \<and> key_eq (ci_product_id c) product_id)
                           (cart_items db) of
                      Some cart_item \<Rightarrow>
                        let cart_item' = cart_item\<lparr>ci_quantity := ci_quantity cart_item + quantity\<rparr> in
                        Inr (jsonify (JObj [(''message'', JStr ''Product added to cart''),
                                (''cart_item'', JObj [(''id'', JInt (ci_id cart_item')),
                                   (''product_id'', product_id),
                                   (''quantity'', JInt (ci_quantity cart_item'))])]) 200,
                             db\<lparr>cart_items :=
                                  map (\<lambda>c. if ci_id c = ci_id cart_item
                                            then c\<lparr>ci_quantity := ci_quantity cart_item'\<rparr> else c)
                                    (cart_items db)\<rparr>)
                    | None \<Rightarrow>
                        let cart_item = \<lparr>ci_id = next_id (map ci_id (cart_items db)),
                                         ci_quantity = quantity, ci_added_at = now,
                                         ci_user_id = current_user_id,
                                         ci_product_id = p_id product\<rparr> in
                        Inr (jsonify (JObj [(''message'', JStr ''Product added to cart''),
                                (''cart_item'', JObj [(''id'', JInt (ci_id cart_item)),
                                   (''product_id'', product_id),
                                   (''quantity'', JInt (ci_quantity cart_item))])]) 200,
                             db\<lparr>cart_items := cart_items db @ [cart_item]\<rparr>))))"

definition update_cart_item ::
  "(string \<Rightarrow> int option) \<Rightarrow> int \<Rightarrow> int \<Rightarrow> pydict \<Rightarrow> db \<Rightarrow> handler_result" where
  "update_cart_item parse current_user_id item_id data db =
     (case find (\<lambda>c. ci_id c = item_id \<and> ci_user_id c = current_user_id) (cart_items db) of
        None \<Rightarrow> Inr (jsonify (error_json ''Cart item not found'') 404, db)
      | Some cart_item \<Rightarrow>
          if \<not> has_key data ''quantity'' then
            Inr (jsonify (error_json ''Quantity is required'') 400, db)
          else
            (case py_int parse (dict_get data ''quantity'' JNull) of
               Inl e \<Rightarrow> Inl e
             | Inr quantity \<Rightarrow>
                 if quantity \<le> 0 then
                   Inr (jsonify (error_json ''Quantity must be greater than zero'') 400, db)
                 else
                   (case cart_item_product db cart_item of
                      None \<Rightarrow> Inl AttributeError
                    | Some product \<Rightarrow>
                        if p_stock product < quantity then
                          Inr (jsonify (error_json ''Not enough stock available'') 400, db)
                        else
                          let cart_item' = cart_item\<lparr>ci_quantity := quantity\<rparr> in
                          Inr (jsonify (JObj [(''message'', JStr ''Cart item updated''),
                                  (''cart_item'', JObj [(''id'', JInt (ci_id cart_item')),
                                     (''product_id'', JInt (ci_product_id cart_item')),
                                     (''quantity'', JInt (ci_quantity cart_item'))])]) 200,
                               db\<lparr>cart_items :=
                                    map (\<lambda>c. if ci_id c = ci_id cart_item
                                              then c\<lparr>ci_quantity := ci_quantity cart_item'\<rparr> else c)
                                      (cart_items db)\<rparr>))))"

definition remove_from_cart :: "int \<Rightarrow> int \<Rightarrow> db \<Rightarrow> handler_result" where
  "remove_from_cart current_user_id item_id db =
     (case find (\<lambda>c. ci_id c = item_id \<and> ci_user_id c = current_user_id) (cart_items db) of
        None \<Rightarrow> Inr (jsonify (error_json ''Cart item not found'') 404, db)
      | Some cart_item \<Rightarrow>
          Inr (jsonify (JObj [(''message'', JStr ''Item removed from cart'')]) 200,
               db\<lparr>cart_items := filter (\<lambda>c. ci_id c \<noteq> ci_id cart_item) (cart_items db)\<rparr>))"


section \<open>Order placement\<close>

text \<open>
  The loop over the cart of \<open>create_order\<close>. It works on the session's view \<open>s\<close> of the
  database, in which the new order is already flushed. Reading \<open>is_active\<close> of the product
  of a cart item raises where there is no product. The loop ends in an exception, in the 400 response that follows \<open>rollback()\<close>, or in the view
  after the last item and the total. \<open>product.stock -= cart_item.quantity\<close> is written to
  the rows with the key of the product, and a row whose stock changes gets \<open>onupdate\<close>'s
  clock reading.
\<close>

definition take_stock :: "datetime \<Rightarrow> product \<Rightarrow> int \<Rightarrow> product \<Rightarrow> product" where
  "take_stock now product stock' p =
     (if p_id p = p_id product \<and> stock' \<noteq> p_stock p
      then p\<lparr>p_stock := stock', p_updated_at := now\<rparr> else p)"

fun order_lines ::
  "datetime \<Rightarrow> int \<Rightarrow> cart_item list \<Rightarrow> db \<Rightarrow> decimal \<Rightarrow> exc + (response + db \<times> decimal)" where
  "order_lines now order_id [] s total_amount = Inr (Inr (s, total_amount))"
| "order_lines now order_id (cart_item # rest) s total_amount =
     (case cart_item_product s cart_item of
        None \<Rightarrow> Inl AttributeError
      | Some product \<Rightarrow>
          if \<not> p_is_active product \<or> p_stock product < ci_quantity cart_item then
            Inr (Inl (jsonify (error_json
              (''Product '' @ p_name product @ '' is not available or not enough in stock'')) 400))
          else
            let order_item = \<lparr>oi_id = next_id (map oi_id (order_items s)),
                              oi_quantity = ci_quantity cart_item,
                              oi_price = p_price product,
                              oi_order_id = order_id,
                              oi_product_id = p_id product\<rparr>;
                stock' = p_stock product - ci_quantity cart_item;
                item_total = p_price product * ci_quantity cart_item
            in order_lines now order_id rest
                 (s\<lparr>products := map (take_stock now product stock') (products s),
                    order_items := order_items s @ [order_item]\<rparr>)
                 (total_amount + item_total))"

definition order_number_of :: "uuid \<Rightarrow> string" where
  "order_number_of u = ''ORD-'' @ upper (take 8 (uuid_hex u))"

text \<open>The order as \<open>create_order\<close> constructs it, before the total is known.\<close>

definition new_order_row :: "datetime \<Rightarrow> uuid \<Rightarrow> int \<Rightarrow> int \<Rightarrow> int \<Rightarrow> int \<Rightarrow> order" where
  "new_order_row now uuid4 order_id user_id shipping_id billing_id =
     \<lparr>o_id = order_id,
      o_order_number = order_number_of uuid4,
      o_status = ''pending'',
      o_total_amount = 0,
      o_created_at = now,
      o_updated_at = now,
      o_user_id = user_id,
      o_shipping_address_id = Some shipping_id,
      o_billing_address_id = Some billing_id\<rparr>"

definition create_order :: "datetime \<Rightarrow> uuid \<Rightarrow> int \<Rightarrow> pydict \<Rightarrow> db \<Rightarrow> handler_result" where
  "create_order now uuid4 current_user_id data db =
     (case find (\<lambda>x. u_id x = current_user_id) (users db) of
        None \<Rightarrow> Inl NotFound
      | Some user \<Rightarrow>
          if \<not> has_key data ''shipping_address_id'' then
            Inr (jsonify (error_json ''Shipping address is required'') 400, db)
          else
            (case find (\<lambda>a. key_eq (a_id a) (dict_get data ''shipping_address_id'' JNull) \<and>
                               a_user_id a = current_user_id) (addresses db) of
               None \<Rightarrow> Inr (jsonify (error_json ''Invalid shipping address'') 400, db)
             | Some shipping_address \<Rightarrow>
                 let billing_address_id =
                       dict_get data ''billing_address_id'' (dict_get data ''shipping_address_id'' JNull)
                 in
                 (case find (\<lambda>a. key_eq (a_id a) billing_address_id \<and> a_user_id a = current_user_id)
                         (addresses db) of
                    None \<Rightarrow> Inr (jsonify (error_json ''Invalid billing address'') 400, db)
                  | Some billing_address \<Rightarrow>
                      let cart = cart_of db current_user_id in
                      if cart = [] then Inr (jsonify (error_json ''Cart is empty'') 400, db)
                      else
                        let new_order =
                              new_order_row now uuid4 (next_id (map o_id (orders db))) current_user_id
                                (a_id shipping_address) (a_id billing_address)
                        in
                        if o_order_number new_order \<in> set (map o_order_number (orders db)) then
                          Inl IntegrityError
                        else
                          (case order_lines now (o_id new_order) cart
                                  (db\<lparr>orders := orders db @ [new_order]\<rparr>) 0 of
                             Inl e \<Rightarrow> Inl e
                           | Inr (Inl refusal) \<Rightarrow> Inr (refusal, db)
                           | Inr (Inr (s, total_amount)) \<Rightarrow>
                               Inr (jsonify (JObj [(''message'', JStr ''Order created successfully''),
                                       (''order'', JObj [(''id'', JInt (o_id new_order)),
                                          (''order_number'', JStr (o_order_number new_order)),
                                          (''status'', JStr (o_status new_order)),
                                          (''total_amount'', JStr (str_decimal total_amount)),
                                          (''created_at'', JStr (isoformat (o_created_at new_order)))])])
                                      201,
                                    s\<lparr>orders :=
                                         map (\<lambda>row. if o_id row = o_id new_order
                                                   then row\<lparr>o_total_amount := total_amount\<rparr>
                                                   else row)
                                           (orders s),
                                       cart_items :=
                                         filter (\<lambda>c. ci_id c \<notin> set (map ci_id cart))
                                           (cart_items s)\<rparr>)))))"

section \<open>Reviews\<close>

definition create_review ::
  "(string \<Rightarrow> int option) \<Rightarrow> datetime \<Rightarrow> int \<Rightarrow> int \<Rightarrow> pydict \<Rightarrow> db \<Rightarrow> handler_result" where
  "create_review parse now current_user_id product_id data db =
     (case find (\<lambda>p. p_id p = product_id) (products db) of
        None \<Rightarrow> Inl NotFound
      | Some product \<Rightarrow>
          if \<not> has_key data ''rating'' then
            Inr (jsonify (error_json ''Rating is required'') 400, db)
          else
            (case py_int parse (dict_get data ''rating'' JNull) of
               Inl e \<Rightarrow> Inl e
             | Inr rating \<Rightarrow>
                 if rating < 1 \<or> rating > 5 then
                   Inr (jsonify (error_json ''Rating must be between 1 and 5'') 400, db)
                 else
                   (case find (\<lambda>r. r_user_id r = current_user_id \<and> r_product_id r = product_id)
                           (reviews db) of
                      Some existing_review \<Rightarrow>
                        Inr (jsonify (error_json ''You have already reviewed this product'') 400, db)
                    | None \<Rightarrow>
                        let new_review = \<lparr>r_id = next_id (map r_id (reviews db)),
                                          r_rating = rating,
                                          r_comment = dict_get data ''comment'' (JStr []),
                                          r_created_at = now,
                                          r_user_id = current_user_id,
                                          r_product_id = product_id\<rparr> in
                        Inr (jsonify (JObj [(''message'', JStr ''Review created successfully''),
                                (''review'', JObj [(''id'', JInt (r_id new_review)),
                                   (''rating'', JInt (r_rating new_review)),
                                   (''comment'', r_comment new_review),
                                   (''created_at'', JStr (isoformat (r_created_at new_review)))])]) 201,
                             db\<lparr>reviews := reviews db @ [new_review]\<rparr>))))"

section \<open>Addresses\<close>

text \<open>
  The address as \<open>create_address\<close> constructs it. \<open>is_default\<close> is read for its truth
  value: where the branch of the handler is not taken the value submitted is a false one and
  the row is stored as not default.
\<close>

definition new_address_row :: "int \<Rightarrow> int \<Rightarrow> pydict \<Rightarrow> address" where
  "new_address_row address_id user_id data =
     \<lparr>a_id = address_id,
      a_street = dict_get data ''street'' JNull,
      a_city = dict_get data ''city'' JNull,
      a_state = dict_get data ''state'' (JStr []),
      a_country = dict_get data ''country'' JNull,
      a_zip_code = dict_get data ''zip_code'' JNull,
      a_is_default = truthy (dict_get data ''is_default'' (JBool False)),
      a_address_type = dict_get data ''address_type'' (JStr []),
      a_user_id = user_id\<rparr>"

definition create_address :: "int \<Rightarrow> pydict \<Rightarrow> db \<Rightarrow> handler_result" where
  "create_address current_user_id data db =
     (if \<not> list_all (has_key data) [''street'', ''city'', ''country'', ''zip_code''] then
        Inr (jsonify (error_json ''Missing required fields'') 400, db)
      else
        let new_address = new_address_row (next_id (map a_id (addresses db))) current_user_id data;
            first_or_default =
              (a_is_default new_address \<or>
               length (filter (\<lambda>a. a_user_id a = current_user_id) (addresses db)) = 0);
            new_address' = (if first_or_default then new_address\<lparr>a_is_default := True\<rparr> else new_address);
            others = (if first_or_default
                      then map (\<lambda>a. if a_user_id a = current_user_id then a\<lparr>a_is_default := False\<rparr> else a)
                             (addresses db)
                      else addresses db)
        in Inr (jsonify (JObj [(''message'', JStr ''Address created successfully''),
                  (''address'', JObj [(''id'', JInt (a_id new_address')),
                     (''street'', a_street new_address'),
                     (''city'', a_city new_address'),
                     (''state'', a_state new_address'),
                     (''country'', a_country new_address'),
                     (''zip_code'', a_zip_code new_address'),
                     (''is_default'', JBool (a_is_default new_address')),
                     (''address_type'', a_address_type new_address')])]) 201,
                db\<lparr>addresses := others @ [new_address']\<rparr>))"

section \<open>Login\<close>

text \<open>
  \<open>user.check_password(...)\<close>: the class \<open>User\<close> of \<open>models.py\<close> declares columns and
  relationships and no method, so the attribute lookup on a user raises \<open>AttributeError\<close>
  before anything is compared. \<open>create_access_token\<close> is the token library's.
\<close>

definition check_password :: "user \<Rightarrow> json \<Rightarrow> exc + bool" where
  "check_password user password = Inl AttributeError"

definition opt_str :: "string option \<Rightarrow> json" where
  "opt_str v = (case v of None \<Rightarrow> JNull | Some s \<Rightarrow> JStr s)"

definition login :: "(int \<Rightarrow> string) \<Rightarrow> pydict \<Rightarrow> db \<Rightarrow> handler_result" where
  "login create_access_token data db =
     (if data = [] \<or> \<not> truthy (dict_get data ''username'' JNull) \<or>
         \<not> truthy (dict_get data ''password'' JNull) then
        Inr (jsonify (error_json ''Missing username or password'') 400, db)
      else
        (case find (\<lambda>x. JStr (u_username x) = dict_get data ''username'' JNull) (users db) of
           None \<Rightarrow> Inr (jsonify (error_json ''Invalid username or password'') 401, db)
         | Some user \<Rightarrow>
             (case check_password user (dict_get data ''password'' JNull) of
                Inl e \<Rightarrow> Inl e
              | Inr ok \<Rightarrow>
                  if \<not> ok then Inr (jsonify (error_json ''Invalid username or password'') 401, db)
                  else
                    Inr (jsonify (JObj [(''message'', JStr ''Login successful''),
                            (''access_token'', JStr (create_access_token (u_id user))),
                            (''user'', JObj [(''id'', JInt (u_id user)),
                               (''username'', JStr (u_username user)),
                               (''email'', JStr (u_email user)),
                               (''first_name'', opt_str (u_first_name user)),
                               (''last_name'', opt_str (u_last_name user))])]) 200,
                         db))))"

section \<open>Product routes\<close>

text \<open>
  \<open>product.is_active = False\<close>, as \<open>commit()\<close> writes it to the rows with the key of the
  product: a row that was active becomes inactive and gets \<open>onupdate\<close>'s clock reading.
\<close>

definition deactivate :: "datetime \<Rightarrow> product \<Rightarrow> product \<Rightarrow> product" where
  "deactivate now product p =
     (if p_id p = p_id product \<and> p_is_active p
      then p\<lparr>p_is_active := False, p_updated_at := now\<rparr> else p)"

definition delete_product :: "datetime \<Rightarrow> int \<Rightarrow> int \<Rightarrow> db \<Rightarrow> handler_result" where
  "delete_product now current_user_id product_id db =
     (case find (\<lambda>x. u_id x = current_user_id) (users db) of
        None \<Rightarrow> Inl NotFound
      | Some user \<Rightarrow>
          if \<not> u_is_admin user then Inr (jsonify (error_json ''Unauthorized'') 403, db)
          else
            (case find (\<lambda>p. p_id p = product_id) (products db) of
               None \<Rightarrow> Inl NotFound
             | Some product \<Rightarrow>
                 Inr (jsonify (JObj [(''message'', JStr ''Product deleted successfully'')]) 200,
                      db\<lparr>products := map (deactivate now product) (products db)\<rparr>)))"











section \<open>The schema evolution step\<close>

text \<open>
  A schema maps the name of a table to the list of its columns. \<open>op.add_column\<close> appends
  a column to a table and \<open>op.drop_column\<close> removes the column of that name; the database
  refuses a table it does not have, a column name the table already has, and the drop of a
  column the table does not have.
\<close>

datatype sa_type = SA_String nat | SA_Text | SA_Integer | SA_Boolean | SA_DateTime | SA_Numeric nat nat









section \<open>Invariants of the tables\<close>

text \<open>At most one cart item for a user and a product.\<close>

definition cart_unique :: "db \<Rightarrow> bool" where
  "cart_unique db = distinct (map (\<lambda>c. (ci_user_id c, ci_product_id c)) (cart_items db))"









section \<open>A small shop\<close>

text \<open>
  Concrete data on which the theorems below are instantiated: two users, of whom the second
  is an administrator, three products, of which the third is retired, one address and one
  review of the first user, and her cart of two items.
\<close>

definition t0 :: datetime where
  "t0 = \<lparr>dt_year = 2025, dt_month = 3, dt_day = 11, dt_hour = 11, dt_minute = 55,
          dt_second = 3, dt_microsecond = 0\<rparr>"

definition t1 :: datetime where
  "t1 = \<lparr>dt_year = 2025, dt_month = 3, dt_day = 12, dt_hour = 8, dt_minute = 0,
          dt_second = 0, dt_microsecond = 250\<rparr>"

definition alice :: user where
  "alice = \<lparr>u_id = 1, u_username = ''alice'', u_email = ''alice@example.org'',
             u_password = ''x'', u_first_name = Some ''Alice'', u_last_name = None,
             u_is_active = True, u_is_admin = False, u_created_at = t0, u_updated_at = t0\<rparr>"

definition root :: user where
  "root = \<lparr>u_id = 2, u_username = ''root'', u_email = ''root@example.org'',
            u_password = ''y'', u_first_name = None, u_last_name = None,
            u_is_active = True, u_is_admin = True, u_created_at = t0, u_updated_at = t0\<rparr>"

definition widget :: product where
  "widget = \<lparr>p_id = 1, p_name = ''Widget'', p_description = Some ''A widget'', p_price = 1000,
              p_stock = 5, p_sku = Some ''SKU-0000AAAA'', p_is_active = True, p_created_at = t0,
              p_updated_at = t0, p_category_id = None\<rparr>"

definition gadget :: product where
  "gadget = \<lparr>p_id = 2, p_name = ''Gadget'', p_description = None, p_price = 550,
              p_stock = 1, p_sku = None, p_is_active = True, p_created_at = t0,
              p_updated_at = t0, p_category_id = None\<rparr>"

definition relic :: product where
  "relic = \<lparr>p_id = 3, p_name = ''Relic'', p_description = None, p_price = 9999,
             p_stock = 7, p_sku = None, p_is_active = False, p_created_at = t0,
             p_updated_at = t0, p_category_id = None\<rparr>"

definition home :: address where
  "home = \<lparr>a_id = 1, a_street = JStr ''1 Main St'', a_city = JStr ''Nairobi'', a_state = JStr [],
            a_country = JStr ''KE'', a_zip_code = JStr ''00100'', a_is_default = True,
            a_address_type = JStr ''shipping'', a_user_id = 1\<rparr>"

definition praise :: review where
  "praise = \<lparr>r_id = 1, r_rating = 5, r_comment = JStr ''Good'', r_created_at = t0,
              r_user_id = 1, r_product_id = 1\<rparr>"

definition line1 :: cart_item where
  "line1 = \<lparr>ci_id = 1, ci_quantity = 2, ci_added_at = t0, ci_user_id = 1, ci_product_id = 1\<rparr>"

definition line2 :: cart_item where
  "line2 = \<lparr>ci_id = 2, ci_quantity = 1, ci_added_at = t0, ci_user_id = 1, ci_product_id = 2\<rparr>"

definition shop :: db where
  "shop = \<lparr>users = [alice, root], products = [widget, gadget, relic], addresses = [home],
            categories = [], orders = [], order_items = [], reviews = [praise],
            cart_items = [line1, line2], product_images = []\<rparr>"


section \<open>What a handler can do\<close>

lemma dispatch_Inr: "dispatch (Inr out) db = out"
  by (simp add: dispatch_def)

lemma dispatch_Inl: "dispatch (Inl e) db = (if e = NotFound then not_found else server_error, db)"
  by (cases e) (simp_all add: dispatch_def)

lemma py_int_error: "py_int parse v = Inl e \<Longrightarrow> e = TypeError \<or> e = ValueError \<or> e = OverflowError"
  by (induction parse v rule: py_int.induct) (auto split: option.splits)

lemma py_int_error_not_404: "py_int parse v = Inl e \<Longrightarrow> e \<noteq> NotFound"
  by (drule py_int_error) auto



lemma find_some_holds: "find P xs = Some y \<Longrightarrow> P y \<and> y \<in> set xs"
  by (induction xs) (auto split: if_splits)

text \<open>
  Add-to-cart raises in the conversion of the quantity, or refuses and leaves the database,
  or answers 200 after adding the quantity to the cart item found for the user and the
  product, or answers 200 after appending a cart item where none was found.
\<close>

lemma add_to_cart_cases:
  obtains
    (raised) e where
      "has_key data ''product_id''" "has_key data ''quantity''"
      "py_int parse (dict_get data ''quantity'' JNull) = Inl e"
      "add_to_cart parse now uid data db = Inl e"
  | (refused) r where
      "add_to_cart parse now uid data db = Inr (r, db)" "status r \<noteq> 200"
  | (incremented) r q p c where
      "py_int parse (dict_get data ''quantity'' JNull) = Inr q" "0 < q" "q \<le> p_stock p"
      "find (\<lambda>p. key_eq (p_id p) (dict_get data ''product_id'' JNull) \<and> p_is_active p) (products db) = Some p"
      "find (\<lambda>c. ci_user_id c = uid \<and> key_eq (ci_product_id c) (dict_get data ''product_id'' JNull))
         (cart_items db) = Some c"
      "status r = 200"
      "add_to_cart parse now uid data db =
         Inr (r, db\<lparr>cart_items :=
                    map (\<lambda>x. if ci_id x = ci_id c then x\<lparr>ci_quantity := ci_quantity c + q\<rparr> else x)
                      (cart_items db)\<rparr>)"
  | (inserted) r q p where
      "py_int parse (dict_get data ''quantity'' JNull) = Inr q" "0 < q" "q \<le> p_stock p"
      "find (\<lambda>p. key_eq (p_id p) (dict_get data ''product_id'' JNull) \<and> p_is_active p) (products db) = Some p"
      "find (\<lambda>c. ci_user_id c = uid \<and> key_eq (ci_product_id c) (dict_get data ''product_id'' JNull))
         (cart_items db) = None"
      "status r = 200"
      "add_to_cart parse now uid data db =
         Inr (r, db\<lparr>cart_items := cart_items db @
                    [\<lparr>ci_id = next_id (map ci_id (cart_items db)), ci_quantity = q, ci_added_at = now,
                      ci_user_id = uid, ci_product_id = p_id p\<rparr>]\<rparr>)"
proof (cases "has_key data ''product_id'' \<and> has_key data ''quantity''")
  case False
  then have "add_to_cart parse now uid data db =
      Inr (jsonify (error_json ''Product ID and quantity are required'') 400, db)"
    by (auto simp: add_to_cart_def)
  then show ?thesis
    by (rule refused) (simp add: jsonify_def)
next
  case keys: True
  show ?thesis
  proof (cases "py_int parse (dict_get data ''quantity'' JNull)")
    case (Inl e)
    with keys have "add_to_cart parse now uid data db = Inl e"
      by (simp add: add_to_cart_def Let_def)
    with keys Inl show ?thesis
      by (intro raised [of e]) simp_all
  next
    case (Inr q)
    show ?thesis
    proof (cases "find (\<lambda>p. key_eq (p_id p) (dict_get data ''product_id'' JNull) \<and> p_is_active p)
                    (products db)")
      case None
      with keys Inr have "add_to_cart parse now uid data db =
          Inr (jsonify (error_json ''Product not found or unavailable'') 404, db)"
        by (simp add: add_to_cart_def Let_def)
      then show ?thesis
        by (rule refused) (simp add: jsonify_def)
    next
      case (Some p)
      show ?thesis
      proof (cases "q \<le> 0 \<or> p_stock p < q")
        case True
        have "add_to_cart parse now uid data db =
            Inr (jsonify (error_json (if q \<le> 0 then ''Quantity must be greater than zero''
                                      else ''Not enough stock available'')) 400, db)"
        proof (cases "q \<le> 0")
          case True
          with keys Inr Some show ?thesis
            by (simp add: add_to_cart_def Let_def)
        next
          case False
          with True keys Inr Some show ?thesis
            by (simp add: add_to_cart_def Let_def)
        qed
        then show ?thesis
          by (rule refused) (simp add: jsonify_def)
      next
        case ok: False
        show ?thesis
        proof (cases "find (\<lambda>c. ci_user_id c = uid \<and>
                          key_eq (ci_product_id c) (dict_get data ''product_id'' JNull)) (cart_items db)")
          case None
          with keys Inr Some ok have "\<exists>r. status r = 200 \<and> add_to_cart parse now uid data db =
              Inr (r, db\<lparr>cart_items := cart_items db @
                    [\<lparr>ci_id = next_id (map ci_id (cart_items db)), ci_quantity = q, ci_added_at = now,
                      ci_user_id = uid, ci_product_id = p_id p\<rparr>]\<rparr>)"
            by (simp add: add_to_cart_def jsonify_def Let_def)
          then obtain r where "status r = 200" "add_to_cart parse now uid data db =
              Inr (r, db\<lparr>cart_items := cart_items db @
                    [\<lparr>ci_id = next_id (map ci_id (cart_items db)), ci_quantity = q, ci_added_at = now,
                      ci_user_id = uid, ci_product_id = p_id p\<rparr>]\<rparr>)"
            by blast
          with Inr Some None ok show ?thesis
            by (intro inserted [of q p r]) simp_all
        next
          case found: (Some c)
          with keys Inr Some ok have "\<exists>r. status r = 200 \<and> add_to_cart parse now uid data db =
              Inr (r, db\<lparr>cart_items :=
                    map (\<lambda>x. if ci_id x = ci_id c then x\<lparr>ci_quantity := ci_quantity c + q\<rparr> else x)
                      (cart_items db)\<rparr>)"
            by (simp add: add_to_cart_def jsonify_def Let_def)
          then obtain r where "status r = 200" "add_to_cart parse now uid data db =
              Inr (r, db\<lparr>cart_items :=
                    map (\<lambda>x. if ci_id x = ci_id c then x\<lparr>ci_quantity := ci_quantity c + q\<rparr> else x)
                      (cart_items db)\<rparr>)"
            by blast
          with Inr Some found ok show ?thesis
            by (intro incremented [of q p c r]) simp_all
        qed
      qed
    qed
  qed
qed

text \<open>
  Update-cart-item refuses, raises in the conversion of the quantity or in the read of a
  product that is not there, or answers 200 after writing the quantity.
\<close>

lemma update_cart_item_cases:
  obtains
    (raised) e where
      "e \<noteq> NotFound" "update_cart_item parse uid item_id data db = Inl e"
  | (refused) r where
      "update_cart_item parse uid item_id data db = Inr (r, db)" "status r \<noteq> 200"
  | (written) r q c where
      "find (\<lambda>c. ci_id c = item_id \<and> ci_user_id c = uid) (cart_items db) = Some c"
      "py_int parse (dict_get data ''quantity'' JNull) = Inr q" "0 < q"
      "status r = 200"
      "update_cart_item parse uid item_id data db =
         Inr (r, db\<lparr>cart_items :=
                    map (\<lambda>x. if ci_id x = ci_id c then x\<lparr>ci_quantity := q\<rparr> else x) (cart_items db)\<rparr>)"
proof (cases "find (\<lambda>c. ci_id c = item_id \<and> ci_user_id c = uid) (cart_items db)")
  case None
  then have "update_cart_item parse uid item_id data db =
      Inr (jsonify (error_json ''Cart item not found'') 404, db)"
    by (simp add: update_cart_item_def)
  then show ?thesis
    by (rule refused) (simp add: jsonify_def)
next
  case item: (Some c)
  show ?thesis
  proof (cases "has_key data ''quantity''")
    case False
    with item have "update_cart_item parse uid item_id data db =
        Inr (jsonify (error_json ''Quantity is required'') 400, db)"
      by (simp add: update_cart_item_def)
    then show ?thesis
      by (rule refused) (simp add: jsonify_def)
  next
    case key: True
    show ?thesis
    proof (cases "py_int parse (dict_get data ''quantity'' JNull)")
      case (Inl e)
      with item key have "update_cart_item parse uid item_id data db = Inl e"
        by (simp add: update_cart_item_def)
      with Inl show ?thesis
        by (intro raised [of e]) (simp_all add: py_int_error_not_404)
    next
      case (Inr q)
      show ?thesis
      proof (cases "q \<le> 0")
        case True
        with item key Inr have "update_cart_item parse uid item_id data db =
            Inr (jsonify (error_json ''Quantity must be greater than zero'') 400, db)"
          by (simp add: update_cart_item_def)
        then show ?thesis
          by (rule refused) (simp add: jsonify_def)
      next
        case pos: False
        show ?thesis
        proof (cases "cart_item_product db c")
          case None
          with item key Inr pos have "update_cart_item parse uid item_id data db = Inl AttributeError"
            by (simp add: update_cart_item_def)
          then show ?thesis
            by (intro raised [of AttributeError]) simp_all
        next
          case (Some p)
          show ?thesis
          proof (cases "p_stock p < q")
            case True
            with item key Inr pos Some have "update_cart_item parse uid item_id data db =
                Inr (jsonify (error_json ''Not enough stock available'') 400, db)"
              by (simp add: update_cart_item_def)
            then show ?thesis
              by (rule refused) (simp add: jsonify_def)
          next
            case False
            with item key Inr pos Some have "\<exists>r. status r = 200 \<and>
                update_cart_item parse uid item_id data db =
                  Inr (r, db\<lparr>cart_items :=
                    map (\<lambda>x. if ci_id x = ci_id c then x\<lparr>ci_quantity := q\<rparr> else x) (cart_items db)\<rparr>)"
              by (simp add: update_cart_item_def jsonify_def Let_def)
            then obtain r where "status r = 200"
                "update_cart_item parse uid item_id data db =
                  Inr (r, db\<lparr>cart_items :=
                    map (\<lambda>x. if ci_id x = ci_id c then x\<lparr>ci_quantity := q\<rparr> else x) (cart_items db)\<rparr>)"
              by blast
            with item Inr pos show ?thesis
              by (intro written [of c q r]) simp_all
          qed
        qed
      qed
    qed
  qed
qed

text \<open>
  Create-review raises, refuses and leaves the database, or answers 201 after appending a
  review where the user had none of the product.
\<close>

lemma create_review_cases:
  obtains
    (raised) e where "create_review parse now uid pid data db = Inl e"
  | (refused) r where
      "create_review parse now uid pid data db = Inr (r, db)" "status r \<noteq> 201"
  | (created) r rating where
      "py_int parse (dict_get data ''rating'' JNull) = Inr rating" "1 \<le> rating" "rating \<le> 5"
      "find (\<lambda>r. r_user_id r = uid \<and> r_product_id r = pid) (reviews db) = None"
      "status r = 201"
      "create_review parse now uid pid data db =
         Inr (r, db\<lparr>reviews := reviews db @
                    [\<lparr>r_id = next_id (map r_id (reviews db)), r_rating = rating,
                      r_comment = dict_get data ''comment'' (JStr []), r_created_at = now,
                      r_user_id = uid, r_product_id = pid\<rparr>]\<rparr>)"
proof (cases "find (\<lambda>p. p_id p = pid) (products db)")
  case None
  then have "create_review parse now uid pid data db = Inl NotFound"
    by (simp add: create_review_def)
  then show ?thesis
    by (rule raised)
next
  case product: (Some p)
  show ?thesis
  proof (cases "has_key data ''rating''")
    case False
    with product have "create_review parse now uid pid data db =
        Inr (jsonify (error_json ''Rating is required'') 400, db)"
      by (simp add: create_review_def)
    then show ?thesis
      by (rule refused) (simp add: jsonify_def)
  next
    case key: True
    show ?thesis
    proof (cases "py_int parse (dict_get data ''rating'' JNull)")
      case (Inl e)
      with product key have "create_review parse now uid pid data db = Inl e"
        by (simp add: create_review_def)
      then show ?thesis
        by (rule raised)
    next
      case (Inr rating)
      show ?thesis
      proof (cases "rating < 1 \<or> rating > 5")
        case True
        with product key Inr have "create_review parse now uid pid data db =
            Inr (jsonify (error_json ''Rating must be between 1 and 5'') 400, db)"
          by (simp add: create_review_def)
        then show ?thesis
          by (rule refused) (simp add: jsonify_def)
      next
        case range: False
        show ?thesis
        proof (cases "find (\<lambda>r. r_user_id r = uid \<and> r_product_id r = pid) (reviews db)")
          case (Some existing)
          with product key Inr range have "create_review parse now uid pid data db =
              Inr (jsonify (error_json ''You have already reviewed this product'') 400, db)"
            by (simp add: create_review_def)
          then show ?thesis
            by (rule refused) (simp add: jsonify_def)
        next
          case None
          with product key Inr range have "\<exists>r. status r = 201 \<and>
              create_review parse now uid pid data db =
                Inr (r, db\<lparr>reviews := reviews db @
                    [\<lparr>r_id = next_id (map r_id (reviews db)), r_rating = rating,
                      r_comment = dict_get data ''comment'' (JStr []), r_created_at = now,
                      r_user_id = uid, r_product_id = pid\<rparr>]\<rparr>)"
            by (simp add: create_review_def jsonify_def Let_def)
          then obtain r where "status r = 201"
              "create_review parse now uid pid data db =
                Inr (r, db\<lparr>reviews := reviews db @
                    [\<lparr>r_id = next_id (map r_id (reviews db)), r_rating = rating,
                      r_comment = dict_get data ''comment'' (JStr []), r_created_at = now,
                      r_user_id = uid, r_product_id = pid\<rparr>]\<rparr>)"
            by blast
          with Inr range None show ?thesis
            by (intro created [of rating r]) simp_all
        qed
      qed
    qed
  qed
qed

section \<open>The schema evolution step is a round trip\<close>






section \<open>Login\<close>

lemma login_known_user_raises:
  assumes "truthy (dict_get data ''username'' JNull)" and "truthy (dict_get data ''password'' JNull)"
    and "find (\<lambda>x. JStr (u_username x) = dict_get data ''username'' JNull) (users db) = Some user"
  shows "login create_access_token data db = Inl AttributeError"
proof -
  from assms(1) have "data \<noteq> []"
    by (auto simp: dict_get_def)
  with assms show ?thesis
    by (simp add: login_def check_password_def)
qed

lemma login_unknown_user_401:
  assumes "truthy (dict_get data ''username'' JNull)" and "truthy (dict_get data ''password'' JNull)"
    and "find (\<lambda>x. JStr (u_username x) = dict_get data ''username'' JNull) (users db) = None"
  shows "login create_access_token data db =
           Inr (jsonify (error_json ''Invalid username or password'') 401, db)"
proof -
  from assms(1) have "data \<noteq> []"
    by (auto simp: dict_get_def)
  with assms show ?thesis
    by (simp add: login_def)
qed

text \<open>
  C7. The claim is that a login with a username no user has and a login with the
  username of a user and a wrong password get the same response, 401 with the message
  \<open>Invalid username or password\<close>. In the shop, the login of \<open>nobody\<close> gets that response;
  the login of \<open>alice\<close> with a wrong password gets 500 with \<open>Internal server error\<close>,
  since the password check is a method the class of users does not have. The two responses
  differ, and the difference tells that \<open>alice\<close> exists.
\<close>

theorem login_known_user_wrong_password:
  "dispatch (login (\<lambda>i. ''token'') [(''username'', JStr ''nobody''), (''password'', JStr ''wrong'')] shop) shop =
     (jsonify (error_json ''Invalid username or password'') 401, shop)
   \<and> dispatch (login (\<lambda>i. ''token'') [(''username'', JStr ''alice''), (''password'', JStr ''wrong'')] shop) shop =
     (jsonify (error_json ''Internal server error'') 500, shop)
   \<and> jsonify (error_json ''Internal server error'') 500 \<noteq>
     jsonify (error_json ''Invalid username or password'') 401"
proof -
  have nobody: "login (\<lambda>i. ''token'') [(''username'', JStr ''nobody''), (''password'', JStr ''wrong'')] shop =
      Inr (jsonify (error_json ''Invalid username or password'') 401, shop)"
    by (rule login_unknown_user_401) (simp_all add: dict_get_def shop_def alice_def root_def)
  have known: "login (\<lambda>i. ''token'') [(''username'', JStr ''alice''), (''password'', JStr ''wrong'')] shop =
      Inl AttributeError"
    by (rule login_known_user_raises [where user = alice])
       (simp_all add: dict_get_def shop_def alice_def root_def)
  show ?thesis
    by (simp add: nobody known dispatch_def server_error_def jsonify_def)
qed

theorem login_known_user_wrong_password_witness:
  "status (fst (dispatch (login (\<lambda>i. ''token'') [(''username'', JStr ''nobody''), (''password'', JStr ''wrong'')] shop) shop)) = 401
   \<and> status (fst (dispatch (login (\<lambda>i. ''token'') [(''username'', JStr ''alice''), (''password'', JStr ''wrong'')] shop) shop)) = 500"
  using login_known_user_wrong_password by (simp add: jsonify_def)

section \<open>Validation in add-to-cart and create-review\<close>




section \<open>Reviews\<close>




section \<open>A field that int() does not convert\<close>








section \<open>The loop of order placement\<close>





lemma take_stock_id: "p_id (take_stock now product stock' p) = p_id p"
  by (simp add: take_stock_def)

lemma take_stock_other: "p_id p \<noteq> p_id product \<Longrightarrow> take_stock now product stock' p = p"
  by (simp add: take_stock_def)

lemma find_map_same_id:
  assumes "\<And>p. p_id (f p) = p_id p" and "\<And>p. p_id p = k \<Longrightarrow> f p = p"
  shows "find (\<lambda>p. p_id p = k) (map f ps) = find (\<lambda>p. p_id p = k) ps"
  using assms by (induction ps) auto

lemma order_lines_step:
  assumes "cart_item_product s ci = Some p" and "p_is_active p" and "ci_quantity ci \<le> p_stock p"
  shows "order_lines now oid (ci # rest) s t =
           order_lines now oid rest
             (s\<lparr>products := map (take_stock now p (p_stock p - ci_quantity ci)) (products s),
                order_items := order_items s @
                  [\<lparr>oi_id = next_id (map oi_id (order_items s)), oi_quantity = ci_quantity ci,
                    oi_price = p_price p, oi_order_id = oid, oi_product_id = p_id p\<rparr>]\<rparr>)
             (t + p_price p * ci_quantity ci)"
  using assms by (simp add: Let_def)

lemma order_lines_refuse:
  assumes "cart_item_product s ci = Some p" and "\<not> p_is_active p \<or> p_stock p < ci_quantity ci"
  shows "order_lines now oid (ci # rest) s t =
           Inr (Inl (jsonify (error_json
             (''Product '' @ p_name p @ '' is not available or not enough in stock'')) 400))"
  using assms by auto

lemma order_lines_raise:
  assumes "cart_item_product s ci = None"
  shows "order_lines now oid (ci # rest) s t = Inl AttributeError"
  using assms by simp

lemma cart_item_product_after_step:
  assumes "ci_product_id ci' \<noteq> p_id p"
  shows "cart_item_product
           (s\<lparr>products := map (take_stock now p stock') (products s), order_items := ois\<rparr>) ci' =
         cart_item_product s ci'"
  using assms
  by (simp add: cart_item_product_def find_map_same_id take_stock_id take_stock_other)

lemma cart_item_product_id: "cart_item_product s ci = Some p \<Longrightarrow> p_id p = ci_product_id ci"
  by (auto simp: cart_item_product_def dest: find_some_holds)


text \<open>The loop touches the products and the order items and no other table.\<close>

lemma order_lines_frame:
  "order_lines now oid items s t = Inr (Inr (s', t')) \<Longrightarrow>
   s' = s\<lparr>products := products s', order_items := order_items s'\<rparr>"
proof (induction items arbitrary: s t)
  case Nil
  then show ?case by simp
next
  case (Cons ci rest)
  show ?case
  proof (cases "cart_item_product s ci")
    case None
    with Cons.prems show ?thesis by simp
  next
    case (Some p)
    show ?thesis
    proof (cases "\<not> p_is_active p \<or> p_stock p < ci_quantity ci")
      case True
      with Some Cons.prems show ?thesis
        by (simp add: order_lines_refuse [OF Some True])
    next
      case False
      then have ok: "p_is_active p" "ci_quantity ci \<le> p_stock p" by auto
      from Cons.prems have "order_lines now oid rest
             (s\<lparr>products := map (take_stock now p (p_stock p - ci_quantity ci)) (products s),
                order_items := order_items s @
                  [\<lparr>oi_id = next_id (map oi_id (order_items s)), oi_quantity = ci_quantity ci,
                    oi_price = p_price p, oi_order_id = oid, oi_product_id = p_id p\<rparr>]\<rparr>)
             (t + p_price p * ci_quantity ci) = Inr (Inr (s', t'))"
        by (simp only: order_lines_step [OF Some ok])
      from Cons.IH [OF this] show ?thesis
        by simp
    qed
  qed
qed



lemma not_in_map_neq: "y \<notin> set (map f xs) \<Longrightarrow> x \<in> set xs \<Longrightarrow> f x \<noteq> y"
  by (metis imageI set_map)





text \<open>
  A cart of distinct products, each there, of which one is inactive or short of stock: the
  loop ends in the refusal that names such a product.
\<close>

lemma order_lines_refuses:
  assumes "distinct (map ci_product_id items)"
    and "\<forall>ci\<in>set items. cart_item_product s ci \<noteq> None"
    and "\<exists>ci\<in>set items. \<exists>p. cart_item_product s ci = Some p \<and>
           (\<not> p_is_active p \<or> p_stock p < ci_quantity ci)"
  shows "\<exists>ci\<in>set items. \<exists>p. cart_item_product s ci = Some p \<and>
           (\<not> p_is_active p \<or> p_stock p < ci_quantity ci) \<and>
           order_lines now oid items s t =
             Inr (Inl (jsonify (error_json
               (''Product '' @ p_name p @ '' is not available or not enough in stock'')) 400))"
  using assms
proof (induction items arbitrary: s t)
  case Nil
  then show ?case by simp
next
  case (Cons ci rest)
  from Cons.prems(2) obtain p where p: "cart_item_product s ci = Some p"
    by auto
  show ?case
  proof (cases "\<not> p_is_active p \<or> p_stock p < ci_quantity ci")
    case True
    with p order_lines_refuse [OF p True] show ?thesis
      by auto
  next
    case False
    then have ok: "p_is_active p" "ci_quantity ci \<le> p_stock p" by auto
    have pid: "p_id p = ci_product_id ci"
      using p by (rule cart_item_product_id)
    let ?oi = "\<lparr>oi_id = next_id (map oi_id (order_items s)), oi_quantity = ci_quantity ci,
                oi_price = p_price p, oi_order_id = oid, oi_product_id = p_id p\<rparr>"
    let ?s1 = "s\<lparr>products := map (take_stock now p (p_stock p - ci_quantity ci)) (products s),
                 order_items := order_items s @ [?oi]\<rparr>"
    have same: "cart_item_product ?s1 ci' = cart_item_product s ci'" if "ci' \<in> set rest" for ci'
    proof -
      from Cons.prems(1) have "ci_product_id ci \<notin> set (map ci_product_id rest)" by simp
      from not_in_map_neq [OF this that] pid have "ci_product_id ci' \<noteq> p_id p" by simp
      then show ?thesis by (rule cart_item_product_after_step)
    qed
    have d1: "distinct (map ci_product_id rest)"
      using Cons.prems(1) by simp
    have d2: "\<forall>ci'\<in>set rest. cart_item_product ?s1 ci' \<noteq> None"
      using Cons.prems(2) same by simp
    from Cons.prems(3) p False have "\<exists>ci'\<in>set rest. \<exists>p'. cart_item_product s ci' = Some p' \<and>
           (\<not> p_is_active p' \<or> p_stock p' < ci_quantity ci')"
      by auto
    then have d3: "\<exists>ci'\<in>set rest. \<exists>p'. cart_item_product ?s1 ci' = Some p' \<and>
           (\<not> p_is_active p' \<or> p_stock p' < ci_quantity ci')"
      using same by auto
    from Cons.IH [OF d1 d2 d3, of "t + p_price p * ci_quantity ci"] obtain ci' p' where
      found: "ci' \<in> set rest" "cart_item_product ?s1 ci' = Some p'"
        "\<not> p_is_active p' \<or> p_stock p' < ci_quantity ci'"
        "order_lines now oid rest ?s1 (t + p_price p * ci_quantity ci) =
           Inr (Inl (jsonify (error_json
             (''Product '' @ p_name p' @ '' is not available or not enough in stock'')) 400))"
      by blast
    have "order_lines now oid (ci # rest) s t =
        order_lines now oid rest ?s1 (t + p_price p * ci_quantity ci)"
      using p ok by (rule order_lines_step)
    with found same [OF found(1)] show ?thesis
      by auto
  qed
qed

section \<open>What order placement can do\<close>

lemma new_order_row_fields:
  "o_id (new_order_row now u oid uid sid bid) = oid"
  "o_order_number (new_order_row now u oid uid sid bid) = order_number_of u"
  "o_status (new_order_row now u oid uid sid bid) = ''pending''"
  "o_created_at (new_order_row now u oid uid sid bid) = now"
  by (simp_all add: new_order_row_def)

lemma create_order_reaches_loop:
  assumes "find (\<lambda>x. u_id x = uid) (users db) = Some user"
    and "has_key data ''shipping_address_id''"
    and "find (\<lambda>a. key_eq (a_id a) (dict_get data ''shipping_address_id'' JNull) \<and> a_user_id a = uid)
           (addresses db) = Some sa"
    and "find (\<lambda>a. key_eq (a_id a)
                 (dict_get data ''billing_address_id'' (dict_get data ''shipping_address_id'' JNull)) \<and>
               a_user_id a = uid) (addresses db) = Some ba"
    and "cart_of db uid \<noteq> []"
    and "order_number_of u \<notin> set (map o_order_number (orders db))"
  shows "create_order now u uid data db =
     (case order_lines now (next_id (map o_id (orders db))) (cart_of db uid)
             (db\<lparr>orders := orders db @
                [new_order_row now u (next_id (map o_id (orders db))) uid (a_id sa) (a_id ba)]\<rparr>) 0 of
        Inl e \<Rightarrow> Inl e
      | Inr (Inl refusal) \<Rightarrow> Inr (refusal, db)
      | Inr (Inr (s, total_amount)) \<Rightarrow>
          Inr (jsonify (JObj [(''message'', JStr ''Order created successfully''),
                  (''order'', JObj [(''id'', JInt (next_id (map o_id (orders db)))),
                     (''order_number'', JStr (order_number_of u)),
                     (''status'', JStr ''pending''),
                     (''total_amount'', JStr (str_decimal total_amount)),
                     (''created_at'', JStr (isoformat now))])]) 201,
               s\<lparr>orders := map (\<lambda>row. if o_id row = next_id (map o_id (orders db))
                                       then row\<lparr>o_total_amount := total_amount\<rparr> else row) (orders s),
                 cart_items := filter (\<lambda>c. ci_id c \<notin> set (map ci_id (cart_of db uid))) (cart_items s)\<rparr>))"
  using assms
  by (simp add: create_order_def Let_def new_order_row_fields split: sum.splits prod.splits)

lemma create_order_cases:
  obtains
    (raised) e where "create_order now u uid data db = Inl e"
  | (refused) r where "create_order now u uid data db = Inr (r, db)" "status r = 400"
  | (placed) r s total_amount and sa :: address and ba :: address where
      "order_lines now (next_id (map o_id (orders db))) (cart_of db uid)
         (db\<lparr>orders := orders db @
            [new_order_row now u (next_id (map o_id (orders db))) uid (a_id sa) (a_id ba)]\<rparr>) 0 =
       Inr (Inr (s, total_amount))"
      "status r = 201"
      "create_order now u uid data db =
         Inr (r, s\<lparr>orders := map (\<lambda>row. if o_id row = next_id (map o_id (orders db))
                                       then row\<lparr>o_total_amount := total_amount\<rparr> else row) (orders s),
                    cart_items := filter (\<lambda>c. ci_id c \<notin> set (map ci_id (cart_of db uid)))
                                    (cart_items s)\<rparr>)"
proof (cases "find (\<lambda>x. u_id x = uid) (users db)")
  case None
  then have "create_order now u uid data db = Inl NotFound"
    by (simp add: create_order_def)
  then show ?thesis by (rule raised)
next
  case user: (Some user)
  show ?thesis
  proof (cases "has_key data ''shipping_address_id''")
    case False
    with user have "create_order now u uid data db =
        Inr (jsonify (error_json ''Shipping address is required'') 400, db)"
      by (simp add: create_order_def)
    then show ?thesis by (rule refused) (simp add: jsonify_def)
  next
    case key: True
    show ?thesis
    proof (cases "find (\<lambda>a. key_eq (a_id a) (dict_get data ''shipping_address_id'' JNull) \<and>
                        a_user_id a = uid) (addresses db)")
      case None
      with user key have "create_order now u uid data db =
          Inr (jsonify (error_json ''Invalid shipping address'') 400, db)"
        by (simp add: create_order_def)
      then show ?thesis by (rule refused) (simp add: jsonify_def)
    next
      case shipping: (Some sa)
      show ?thesis
      proof (cases "find (\<lambda>a. key_eq (a_id a)
                 (dict_get data ''billing_address_id'' (dict_get data ''shipping_address_id'' JNull)) \<and>
               a_user_id a = uid) (addresses db)")
        case None
        with user key shipping have "create_order now u uid data db =
            Inr (jsonify (error_json ''Invalid billing address'') 400, db)"
          by (simp add: create_order_def Let_def)
        then show ?thesis by (rule refused) (simp add: jsonify_def)
      next
        case billing: (Some ba)
        show ?thesis
        proof (cases "cart_of db uid = []")
          case True
          with user key shipping billing have "create_order now u uid data db =
              Inr (jsonify (error_json ''Cart is empty'') 400, db)"
            by (simp add: create_order_def Let_def)
          then show ?thesis by (rule refused) (simp add: jsonify_def)
        next
          case cart: False
          show ?thesis
          proof (cases "order_number_of u \<in> set (map o_order_number (orders db))")
            case True
            with user key shipping billing cart have "create_order now u uid data db = Inl IntegrityError"
              by (simp add: create_order_def Let_def new_order_row_fields)
            then show ?thesis by (rule raised)
          next
            case fresh: False
            note reach = create_order_reaches_loop [OF user key shipping billing cart fresh, of now]
            show ?thesis
            proof (cases "order_lines now (next_id (map o_id (orders db))) (cart_of db uid)
                (db\<lparr>orders := orders db @
                   [new_order_row now u (next_id (map o_id (orders db))) uid (a_id sa) (a_id ba)]\<rparr>) 0")
              case (Inl e)
              with reach have "create_order now u uid data db = Inl e" by simp
              then show ?thesis by (rule raised)
            next
              case (Inr out)
              show ?thesis
              proof (cases out)
                case (Inl refusal)
                with Inr reach have *: "create_order now u uid data db = Inr (refusal, db)" by simp
                have "status refusal = 400"
                proof -
                  have "\<And>s t. order_lines now oid items s t = Inr (Inl refusal) \<Longrightarrow> status refusal = 400"
                    for oid items
                  proof (induction items)
                    case Nil
                    then show ?case by simp
                  next
                    case (Cons ci rest)
                    then show ?case
                      by (auto simp: Let_def jsonify_def split: option.splits if_splits)
                  qed
                  with Inr Inl show ?thesis by blast
                qed
                with * show ?thesis by (rule refused)
              next
                case (Inr fin)
                obtain s total_amount where fin: "fin = (s, total_amount)"
                  by (cases fin)
                with \<open>order_lines now (next_id (map o_id (orders db))) (cart_of db uid)
                (db\<lparr>orders := orders db @
                   [new_order_row now u (next_id (map o_id (orders db))) uid (a_id sa) (a_id ba)]\<rparr>) 0 =
                   Inr out\<close> Inr
                have run: "order_lines now (next_id (map o_id (orders db))) (cart_of db uid)
                    (db\<lparr>orders := orders db @
                       [new_order_row now u (next_id (map o_id (orders db))) uid (a_id sa) (a_id ba)]\<rparr>) 0 =
                    Inr (Inr (s, total_amount))"
                  by simp
                with reach have "\<exists>r. status r = 201 \<and> create_order now u uid data db =
                    Inr (r, s\<lparr>orders := map (\<lambda>row. if o_id row = next_id (map o_id (orders db))
                                       then row\<lparr>o_total_amount := total_amount\<rparr> else row) (orders s),
                      cart_items := filter (\<lambda>c. ci_id c \<notin> set (map ci_id (cart_of db uid)))
                                    (cart_items s)\<rparr>)"
                  by (simp add: jsonify_def)
                then obtain r where "status r = 201" "create_order now u uid data db =
                    Inr (r, s\<lparr>orders := map (\<lambda>row. if o_id row = next_id (map o_id (orders db))
                                       then row\<lparr>o_total_amount := total_amount\<rparr> else row) (orders s),
                      cart_items := filter (\<lambda>c. ci_id c \<notin> set (map ci_id (cart_of db uid)))
                                    (cart_items s)\<rparr>)"
                  by blast
                with run show ?thesis
                  by (intro placed [of sa ba s total_amount r]) simp_all
              qed
            qed
          qed
        qed
      qed
    qed
  qed
qed

section \<open>One cart item for a user and a product\<close>

lemma cart_keys_after_quantity:
  "map (\<lambda>c. (ci_user_id c, ci_product_id c))
     (map (\<lambda>x. if P x then x\<lparr>ci_quantity := q\<rparr> else x) xs) =
   map (\<lambda>c. (ci_user_id c, ci_product_id c)) xs"
  by (induction xs) auto

lemma cart_unique_after_quantity:
  "cart_unique db \<Longrightarrow>
   cart_unique (db\<lparr>cart_items := map (\<lambda>x. if P x then x\<lparr>ci_quantity := q\<rparr> else x) (cart_items db)\<rparr>)"
  by (simp add: cart_unique_def cart_keys_after_quantity del: map_map)

lemma cart_unique_after_filter:
  "cart_unique db \<Longrightarrow> cart_unique (s\<lparr>cart_items := filter P (cart_items db)\<rparr>)"
  by (simp add: cart_unique_def distinct_map_filter)

lemma add_to_cart_keeps_unique:
  assumes "cart_unique db"
  shows "cart_unique (snd (dispatch (add_to_cart parse now uid data db) db))"
proof (cases parse now uid data db rule: add_to_cart_cases)
  case (raised e)
  with assms show ?thesis by (simp add: dispatch_Inl)
next
  case (refused r)
  with assms show ?thesis by (simp add: dispatch_Inr)
next
  case (incremented r q p c)
  with assms show ?thesis
    by (simp add: dispatch_Inr cart_unique_after_quantity)
next
  case (inserted r q p)
  from inserted(4) have v: "dict_get data ''product_id'' JNull = JInt (p_id p)"
    by (auto dest: find_some_holds simp: key_eq_def)
  from inserted(5) have "\<forall>c\<in>set (cart_items db).
      \<not> (ci_user_id c = uid \<and> key_eq (ci_product_id c) (dict_get data ''product_id'' JNull))"
    by (simp add: find_None_iff)
  then have "\<forall>c\<in>set (cart_items db). (ci_user_id c, ci_product_id c) \<noteq> (uid, p_id p)"
    by (auto simp: v key_eq_def)
  then have "(uid, p_id p) \<notin> set (map (\<lambda>c. (ci_user_id c, ci_product_id c)) (cart_items db))"
    by auto
  with assms inserted(7) show ?thesis
    by (simp add: dispatch_Inr cart_unique_def)
qed

lemma update_cart_item_keeps_unique:
  assumes "cart_unique db"
  shows "cart_unique (snd (dispatch (update_cart_item parse uid item_id data db) db))"
proof (cases parse uid item_id data db rule: update_cart_item_cases)
  case (raised e)
  with assms show ?thesis by (simp add: dispatch_Inl)
next
  case (refused r)
  with assms show ?thesis by (simp add: dispatch_Inr)
next
  case (written r q c)
  with assms show ?thesis
    by (simp add: dispatch_Inr cart_unique_after_quantity)
qed

lemma remove_from_cart_keeps_unique:
  assumes "cart_unique db"
  shows "cart_unique (snd (dispatch (remove_from_cart uid item_id db) db))"
proof (cases "find (\<lambda>c. ci_id c = item_id \<and> ci_user_id c = uid) (cart_items db)")
  case None
  with assms show ?thesis
    by (simp add: remove_from_cart_def dispatch_Inr)
next
  case (Some c)
  with assms show ?thesis
    by (simp add: remove_from_cart_def dispatch_Inr cart_unique_after_filter)
qed

lemma create_order_keeps_unique:
  assumes "cart_unique db"
  shows "cart_unique (snd (dispatch (create_order now u uid data db) db))"
proof (cases now u uid data db rule: create_order_cases)
  case (raised e)
  with assms show ?thesis by (simp add: dispatch_Inl)
next
  case (refused r)
  with assms show ?thesis by (simp add: dispatch_Inr)
next
  case (placed r s total_amount sa ba)
  from order_lines_frame [OF placed(1)] have "cart_items s = cart_items db"
    by (metis (no_types, lifting) db.select_convs(8) db.surjective db.update_convs(2,5,6))
  with assms placed(3) show ?thesis
    by (simp add: dispatch_Inr cart_unique_after_filter)
qed

lemma cart_unique_same_cart: "cart_items s = cart_items db \<Longrightarrow> cart_unique db \<Longrightarrow> cart_unique s"
  by (simp add: cart_unique_def)

lemma create_review_keeps_cart:
  "cart_items (snd (dispatch (create_review parse now uid pid data db) db)) = cart_items db"
proof (cases parse now uid pid data db rule: create_review_cases)
  case (raised e)
  then show ?thesis by (simp add: dispatch_Inl)
next
  case (refused r)
  then show ?thesis by (simp add: dispatch_Inr)
next
  case (created r rating)
  then show ?thesis by (simp add: dispatch_Inr)
qed

lemma create_address_keeps_cart:
  "cart_items (snd (dispatch (create_address uid data db) db)) = cart_items db"
  by (simp add: create_address_def dispatch_Inr Let_def)

lemma delete_product_keeps_cart:
  "cart_items (snd (dispatch (delete_product now uid pid db) db)) = cart_items db"
  by (simp add: delete_product_def dispatch_Inr dispatch_Inl split: option.splits)

lemma unique_row_of_key:
  assumes "distinct (map f xs)" and "x \<in> set xs" and "y \<in> set xs" and "f x = f y"
  shows "x = y"
  using assms by (meson distinct_map inj_on_def)

lemma map_update_one_row:
  assumes "distinct (map ci_id xs)" and "c \<in> set xs"
  shows "map (\<lambda>x. if ci_id x = ci_id c then x\<lparr>ci_quantity := q\<rparr> else x) xs =
         map (\<lambda>x. if x = c then c\<lparr>ci_quantity := q\<rparr> else x) xs"
proof (rule map_cong [OF refl])
  fix x assume "x \<in> set xs"
  show "(if ci_id x = ci_id c then x\<lparr>ci_quantity := q\<rparr> else x) =
        (if x = c then c\<lparr>ci_quantity := q\<rparr> else x)"
  proof (cases "ci_id x = ci_id c")
    case True
    with assms \<open>x \<in> set xs\<close> have "x = c"
      by (intro unique_row_of_key [of ci_id xs]) simp_all
    then show ?thesis by simp
  next
    case False
    then show ?thesis by auto
  qed
qed

text \<open>
  C3. If no user has two cart items of one product, then none has after add-to-cart,
  update-cart-item, remove-from-cart or create-order, whatever the request: these are
  the handlers that write cart items; nor after create-review, create-address or
  delete-product, which write other tables. For an add-to-cart of quantity \<open>q\<close> of product \<open>pid\<close>
  that is answered 200: where the caller has a cart item \<open>c\<close> of the product, the table of
  cart items afterwards is the old one with the quantity of \<open>c\<close> replaced by its sum with \<open>q\<close>,
  so no row is added (the cart items having distinct ids); where the caller has none,
  the table afterwards is the old one with one row appended, of the caller, the product
  and the quantity \<open>q\<close>. No other table changes.
\<close>

theorem cart_item_per_user_and_product:
  assumes "cart_unique db"
  shows
    "cart_unique (snd (dispatch (add_to_cart parse now uid data db) db))
     \<and> cart_unique (snd (dispatch (update_cart_item parse uid item_id data db) db))
     \<and> cart_unique (snd (dispatch (remove_from_cart uid item_id db) db))
     \<and> cart_unique (snd (dispatch (create_order now u uid data db) db))
     \<and> cart_unique (snd (dispatch (create_review parse now uid product_id data db) db))
     \<and> cart_unique (snd (dispatch (create_address uid data db) db))
     \<and> cart_unique (snd (dispatch (delete_product now uid product_id db) db))
     \<and> (\<forall>pid q c.
          map_of data ''product_id'' = Some (JInt pid) \<and>
          py_int parse (dict_get data ''quantity'' JNull) = Inr q \<and>
          status (fst (dispatch (add_to_cart parse now uid data db) db)) = 200 \<and>
          distinct (map ci_id (cart_items db)) \<and>
          c \<in> set (cart_items db) \<and> ci_user_id c = uid \<and> ci_product_id c = pid \<longrightarrow>
          snd (dispatch (add_to_cart parse now uid data db) db) =
            db\<lparr>cart_items :=
                 map (\<lambda>x. if x = c then c\<lparr>ci_quantity := ci_quantity c + q\<rparr> else x) (cart_items db)\<rparr>)
     \<and> (\<forall>pid q.
          map_of data ''product_id'' = Some (JInt pid) \<and>
          py_int parse (dict_get data ''quantity'' JNull) = Inr q \<and>
          status (fst (dispatch (add_to_cart parse now uid data db) db)) = 200 \<and>
          (\<forall>c\<in>set (cart_items db). \<not> (ci_user_id c = uid \<and> ci_product_id c = pid)) \<longrightarrow>
          snd (dispatch (add_to_cart parse now uid data db) db) =
            db\<lparr>cart_items := cart_items db @
                 [\<lparr>ci_id = next_id (map ci_id (cart_items db)), ci_quantity = q, ci_added_at = now,
                   ci_user_id = uid, ci_product_id = pid\<rparr>]\<rparr>)"
proof -
  have again: "snd (dispatch (add_to_cart parse now uid data db) db) =
      db\<lparr>cart_items :=
           map (\<lambda>x. if x = c then c\<lparr>ci_quantity := ci_quantity c + q\<rparr> else x) (cart_items db)\<rparr>"
    if v: "map_of data ''product_id'' = Some (JInt pid)"
      and q: "py_int parse (dict_get data ''quantity'' JNull) = Inr q"
      and ok: "status (fst (dispatch (add_to_cart parse now uid data db) db)) = 200"
      and keys: "distinct (map ci_id (cart_items db))"
      and c: "c \<in> set (cart_items db)" "ci_user_id c = uid" "ci_product_id c = pid"
    for pid q c
  proof (cases parse now uid data db rule: add_to_cart_cases)
    case (raised e)
    with q show ?thesis by simp
  next
    case (refused r)
    with ok show ?thesis by (simp add: dispatch_Inr)
  next
    case (incremented r q' p c')
    from incremented(1) q have "q' = q" by simp
    from incremented(5) have c': "c' \<in> set (cart_items db)" "ci_user_id c' = uid"
        "key_eq (ci_product_id c') (dict_get data ''product_id'' JNull)"
      by (auto dest: find_some_holds)
    with v have "ci_product_id c' = pid"
      by (simp add: key_eq_def dict_get_def)
    with c c' assms have "c' = c"
      by (intro unique_row_of_key [of "\<lambda>c. (ci_user_id c, ci_product_id c)" "cart_items db"])
        (simp_all add: cart_unique_def)
    with incremented(7) \<open>q' = q\<close> keys c(1) show ?thesis
      by (simp add: dispatch_Inr map_update_one_row)
  next
    case (inserted r q' p)
    from inserted(5) c v show ?thesis
      by (auto simp: find_None_iff key_eq_def dict_get_def)
  qed
  have first: "snd (dispatch (add_to_cart parse now uid data db) db) =
      db\<lparr>cart_items := cart_items db @
           [\<lparr>ci_id = next_id (map ci_id (cart_items db)), ci_quantity = q, ci_added_at = now,
             ci_user_id = uid, ci_product_id = pid\<rparr>]\<rparr>"
    if v: "map_of data ''product_id'' = Some (JInt pid)"
      and q: "py_int parse (dict_get data ''quantity'' JNull) = Inr q"
      and ok: "status (fst (dispatch (add_to_cart parse now uid data db) db)) = 200"
      and none: "\<forall>c\<in>set (cart_items db). \<not> (ci_user_id c = uid \<and> ci_product_id c = pid)"
    for pid q
  proof (cases parse now uid data db rule: add_to_cart_cases)
    case (raised e)
    with q show ?thesis by simp
  next
    case (refused r)
    with ok show ?thesis by (simp add: dispatch_Inr)
  next
    case (incremented r q' p c')
    from incremented(5) have "c' \<in> set (cart_items db)" "ci_user_id c' = uid"
        "key_eq (ci_product_id c') (dict_get data ''product_id'' JNull)"
      by (auto dest: find_some_holds)
    with v none show ?thesis
      by (auto simp: key_eq_def dict_get_def)
  next
    case (inserted r q' p)
    from inserted(1) q have "q' = q" by simp
    from inserted(4) v have "p_id p = pid"
      by (auto dest: find_some_holds simp: key_eq_def dict_get_def)
    with inserted(7) \<open>q' = q\<close> show ?thesis
      by (simp add: dispatch_Inr)
  qed
  show ?thesis
  proof (intro conjI allI impI)
    show "cart_unique (snd (dispatch (add_to_cart parse now uid data db) db))"
      using assms by (rule add_to_cart_keeps_unique)
    show "cart_unique (snd (dispatch (update_cart_item parse uid item_id data db) db))"
      using assms by (rule update_cart_item_keeps_unique)
    show "cart_unique (snd (dispatch (remove_from_cart uid item_id db) db))"
      using assms by (rule remove_from_cart_keeps_unique)
    show "cart_unique (snd (dispatch (create_order now u uid data db) db))"
      using assms by (rule create_order_keeps_unique)
    show "cart_unique (snd (dispatch (create_review parse now uid product_id data db) db))"
      using create_review_keeps_cart assms by (rule cart_unique_same_cart)
    show "cart_unique (snd (dispatch (create_address uid data db) db))"
      using create_address_keeps_cart assms by (rule cart_unique_same_cart)
    show "cart_unique (snd (dispatch (delete_product now uid product_id db) db))"
      using delete_product_keeps_cart assms by (rule cart_unique_same_cart)
  next
    fix pid q c
    assume "map_of data ''product_id'' = Some (JInt pid) \<and>
          py_int parse (dict_get data ''quantity'' JNull) = Inr q \<and>
          status (fst (dispatch (add_to_cart parse now uid data db) db)) = 200 \<and>
          distinct (map ci_id (cart_items db)) \<and>
          c \<in> set (cart_items db) \<and> ci_user_id c = uid \<and> ci_product_id c = pid"
    then show "snd (dispatch (add_to_cart parse now uid data db) db) =
            db\<lparr>cart_items :=
                 map (\<lambda>x. if x = c then c\<lparr>ci_quantity := ci_quantity c + q\<rparr> else x) (cart_items db)\<rparr>"
      by (intro again [of pid q c]) simp_all
  next
    fix pid q
    assume "map_of data ''product_id'' = Some (JInt pid) \<and>
          py_int parse (dict_get data ''quantity'' JNull) = Inr q \<and>
          status (fst (dispatch (add_to_cart parse now uid data db) db)) = 200 \<and>
          (\<forall>c\<in>set (cart_items db). \<not> (ci_user_id c = uid \<and> ci_product_id c = pid))"
    then show "snd (dispatch (add_to_cart parse now uid data db) db) =
            db\<lparr>cart_items := cart_items db @
                 [\<lparr>ci_id = next_id (map ci_id (cart_items db)), ci_quantity = q, ci_added_at = now,
                   ci_user_id = uid, ci_product_id = pid\<rparr>]\<rparr>"
      by (intro first [of pid q]) simp_all
  qed
qed

theorem cart_item_per_user_and_product_witness:
  "cart_unique shop
   \<and> snd (dispatch (add_to_cart decimal_literal t1 1 [(''product_id'', JInt 1), (''quantity'', JInt 3)] shop)
         shop) =
       shop\<lparr>cart_items := [line1\<lparr>ci_quantity := 5\<rparr>, line2]\<rparr>
   \<and> snd (dispatch (add_to_cart decimal_literal t1 2 [(''product_id'', JInt 1), (''quantity'', JInt 1)] shop)
         shop) =
       shop\<lparr>cart_items := [line1, line2,
         \<lparr>ci_id = 3, ci_quantity = 1, ci_added_at = t1, ci_user_id = 2, ci_product_id = 1\<rparr>]\<rparr>
   \<and> cart_unique
       (snd (dispatch (add_to_cart decimal_literal t1 2 [(''product_id'', JInt 1), (''quantity'', JInt 1)] shop)
          shop))"
proof -
  have rows: "products shop = [widget, gadget, relic]" "cart_items shop = [line1, line2]"
    by (simp_all add: shop_def)
  have fields: "p_id widget = 1" "p_is_active widget" "p_stock widget = 5"
    "ci_id line1 = 1" "ci_id line2 = 2" "ci_user_id line1 = 1" "ci_user_id line2 = 1"
    "ci_product_id line1 = 1" "ci_product_id line2 = 2" "ci_quantity line1 = 2" "line1 \<noteq> line2"
    by (simp_all add: widget_def line1_def line2_def)
  have unique: "cart_unique shop"
    by (simp add: cart_unique_def rows fields)
  have ok1: "status (fst (dispatch
      (add_to_cart decimal_literal t1 1 [(''product_id'', JInt 1), (''quantity'', JInt 3)] shop) shop)) = 200"
    by (simp add: add_to_cart_def has_key_def dict_get_def key_eq_def rows fields dispatch_Inr
          jsonify_def Let_def)
  have ok2: "status (fst (dispatch
      (add_to_cart decimal_literal t1 2 [(''product_id'', JInt 1), (''quantity'', JInt 1)] shop) shop)) = 200"
    by (simp add: add_to_cart_def has_key_def dict_get_def key_eq_def rows fields dispatch_Inr
          jsonify_def Let_def)
  note T1 = cart_item_per_user_and_product [OF unique, where parse = decimal_literal and now = t1
      and uid = 1 and data = "[(''product_id'', JInt 1), (''quantity'', JInt 3)]"]
  note T2 = cart_item_per_user_and_product [OF unique, where parse = decimal_literal and now = t1
      and uid = 2 and data = "[(''product_id'', JInt 1), (''quantity'', JInt 1)]"]
  from T1 have "map_of [(''product_id'', JInt 1), (''quantity'', JInt 3)] ''product_id'' = Some (JInt 1) \<and>
          py_int decimal_literal (dict_get [(''product_id'', JInt 1), (''quantity'', JInt 3)] ''quantity'' JNull) =
            Inr 3 \<and>
          status (fst (dispatch
            (add_to_cart decimal_literal t1 1 [(''product_id'', JInt 1), (''quantity'', JInt 3)] shop) shop)) =
            200 \<and>
          distinct (map ci_id (cart_items shop)) \<and>
          line1 \<in> set (cart_items shop) \<and> ci_user_id line1 = 1 \<and> ci_product_id line1 = 1 \<longrightarrow>
          snd (dispatch (add_to_cart decimal_literal t1 1 [(''product_id'', JInt 1), (''quantity'', JInt 3)] shop)
            shop) =
            shop\<lparr>cart_items :=
                 map (\<lambda>x. if x = line1 then line1\<lparr>ci_quantity := ci_quantity line1 + 3\<rparr> else x)
                   (cart_items shop)\<rparr>"
    by blast
  with ok1 have one: "snd (dispatch
      (add_to_cart decimal_literal t1 1 [(''product_id'', JInt 1), (''quantity'', JInt 3)] shop) shop) =
       shop\<lparr>cart_items := [line1\<lparr>ci_quantity := 5\<rparr>, line2]\<rparr>"
    using fields(11) by (simp add: dict_get_def rows fields)
  from T2 have "map_of [(''product_id'', JInt 1), (''quantity'', JInt 1)] ''product_id'' = Some (JInt 1) \<and>
          py_int decimal_literal (dict_get [(''product_id'', JInt 1), (''quantity'', JInt 1)] ''quantity'' JNull) =
            Inr 1 \<and>
          status (fst (dispatch
            (add_to_cart decimal_literal t1 2 [(''product_id'', JInt 1), (''quantity'', JInt 1)] shop) shop)) =
            200 \<and>
          (\<forall>c\<in>set (cart_items shop). \<not> (ci_user_id c = 2 \<and> ci_product_id c = 1)) \<longrightarrow>
          snd (dispatch (add_to_cart decimal_literal t1 2 [(''product_id'', JInt 1), (''quantity'', JInt 1)] shop)
            shop) =
            shop\<lparr>cart_items := cart_items shop @
                 [\<lparr>ci_id = next_id (map ci_id (cart_items shop)), ci_quantity = 1, ci_added_at = t1,
                   ci_user_id = 2, ci_product_id = 1\<rparr>]\<rparr>"
    by blast
  with ok2 have two: "snd (dispatch
      (add_to_cart decimal_literal t1 2 [(''product_id'', JInt 1), (''quantity'', JInt 1)] shop) shop) =
       shop\<lparr>cart_items := [line1, line2,
         \<lparr>ci_id = 3, ci_quantity = 1, ci_added_at = t1, ci_user_id = 2, ci_product_id = 1\<rparr>]\<rparr>"
    by (simp add: dict_get_def rows fields next_id_def)
  from T2 have "cart_unique (snd (dispatch
      (add_to_cart decimal_literal t1 2 [(''product_id'', JInt 1), (''quantity'', JInt 1)] shop) shop))"
    by blast
  with unique one two show ?thesis
    by simp
qed

section \<open>One default address for a user\<close>









section \<open>Soft delete\<close>



lemma deactivate_active: "p_is_active (deactivate now product p) \<Longrightarrow> p_id p \<noteq> p_id product"
  by (auto simp: deactivate_def split: if_splits)










section \<open>Orders that are refused\<close>

lemma cart_products_distinct:
  assumes "cart_unique db"
  shows "distinct (map ci_product_id (cart_of db uid))"
proof -
  let ?key = "\<lambda>c. (ci_user_id c, ci_product_id c)"
  from assms have d: "distinct (map ?key (cart_of db uid))"
    unfolding cart_unique_def cart_of_def by (rule distinct_map_filter)
  then have "distinct (cart_of db uid)" and inj: "inj_on ?key (set (cart_of db uid))"
    by (simp_all add: distinct_map)
  moreover have "inj_on ci_product_id (set (cart_of db uid))"
  proof (rule inj_onI)
    fix x y assume "x \<in> set (cart_of db uid)" "y \<in> set (cart_of db uid)"
      and "ci_product_id x = ci_product_id y"
    moreover from this have "ci_user_id x = ci_user_id y"
      by (simp add: cart_of_def)
    ultimately show "x = y"
      using inj by (simp add: inj_on_def)
  qed
  ultimately show ?thesis
    by (simp add: distinct_map)
qed

lemma cart_item_product_flushed:
  "cart_item_product (db\<lparr>orders := rows\<rparr>) ci = cart_item_product db ci"
  by (simp add: cart_item_product_def)

lemma create_order_failure_keeps_db:
  assumes "status (fst (dispatch (create_order now u uid data db) db)) \<noteq> 201"
  shows "snd (dispatch (create_order now u uid data db) db) = db"
proof (cases now u uid data db rule: create_order_cases)
  case (raised e)
  then show ?thesis by (simp add: dispatch_Inl)
next
  case (refused r)
  then show ?thesis by (simp add: dispatch_Inr)
next
  case (placed r s total_amount sa ba)
  with assms show ?thesis by (simp add: dispatch_Inr)
qed

text \<open>
  C1. Take a user with the addresses the request names and an order number not in use, so
  that order creation reaches the loop over the cart; let the cart have at most one item for
  a product, each item with its product row. If the product of some cart item is inactive
  or has less stock than the quantity of the item, the answer is 400 with the message that
  names the product of such an item, and the database is the one before: no order, no order
  item, no change of stock and the cart as it was. Whatever the request, an answer other
  than 201 leaves the database as it was.
\<close>

theorem order_all_or_nothing:
  assumes "find (\<lambda>x. u_id x = uid) (users db) = Some user"
    and "has_key data ''shipping_address_id''"
    and "find (\<lambda>a. key_eq (a_id a) (dict_get data ''shipping_address_id'' JNull) \<and> a_user_id a = uid)
           (addresses db) = Some sa"
    and "find (\<lambda>a. key_eq (a_id a)
                 (dict_get data ''billing_address_id'' (dict_get data ''shipping_address_id'' JNull)) \<and>
               a_user_id a = uid) (addresses db) = Some ba"
    and "order_number_of u \<notin> set (map o_order_number (orders db))"
    and "cart_unique db"
    and "\<forall>ci\<in>set (cart_of db uid). cart_item_product db ci \<noteq> None"
    and "\<exists>ci\<in>set (cart_of db uid). \<exists>p. cart_item_product db ci = Some p \<and>
           (\<not> p_is_active p \<or> p_stock p < ci_quantity ci)"
  shows "(\<exists>ci\<in>set (cart_of db uid). \<exists>p. cart_item_product db ci = Some p \<and>
            (\<not> p_is_active p \<or> p_stock p < ci_quantity ci) \<and>
            dispatch (create_order now u uid data db) db =
              (jsonify (error_json
                 (''Product '' @ p_name p @ '' is not available or not enough in stock'')) 400, db))
         \<and> (\<forall>now' u' data'.
              status (fst (dispatch (create_order now' u' uid data' db) db)) \<noteq> 201 \<longrightarrow>
              snd (dispatch (create_order now' u' uid data' db) db) = db)"
proof -
  let ?oid = "next_id (map o_id (orders db))"
  let ?s = "db\<lparr>orders := orders db @ [new_order_row now u ?oid uid (a_id sa) (a_id ba)]\<rparr>"
  have cart: "cart_of db uid \<noteq> []"
    using assms(8) by auto
  have "distinct (map ci_product_id (cart_of db uid))"
    using assms(6) by (rule cart_products_distinct)
  moreover have "\<forall>ci\<in>set (cart_of db uid). cart_item_product ?s ci \<noteq> None"
    using assms(7) by (simp add: cart_item_product_flushed)
  moreover have "\<exists>ci\<in>set (cart_of db uid). \<exists>p. cart_item_product ?s ci = Some p \<and>
           (\<not> p_is_active p \<or> p_stock p < ci_quantity ci)"
    using assms(8) by (simp add: cart_item_product_flushed)
  ultimately obtain ci p where ci: "ci \<in> set (cart_of db uid)"
    and p: "cart_item_product ?s ci = Some p" "\<not> p_is_active p \<or> p_stock p < ci_quantity ci"
    and loop: "order_lines now ?oid (cart_of db uid) ?s 0 =
      Inr (Inl (jsonify (error_json
        (''Product '' @ p_name p @ '' is not available or not enough in stock'')) 400))"
    using order_lines_refuses [of "cart_of db uid" ?s now ?oid 0] by blast
  have "create_order now u uid data db =
      Inr (jsonify (error_json
        (''Product '' @ p_name p @ '' is not available or not enough in stock'')) 400, db)"
    using create_order_reaches_loop [OF assms(1-4) cart assms(5), of now] loop by simp
  then have "dispatch (create_order now u uid data db) db =
      (jsonify (error_json
        (''Product '' @ p_name p @ '' is not available or not enough in stock'')) 400, db)"
    by (simp add: dispatch_Inr)
  with ci p have first: "\<exists>ci\<in>set (cart_of db uid). \<exists>p. cart_item_product db ci = Some p \<and>
            (\<not> p_is_active p \<or> p_stock p < ci_quantity ci) \<and>
            dispatch (create_order now u uid data db) db =
              (jsonify (error_json
                 (''Product '' @ p_name p @ '' is not available or not enough in stock'')) 400, db)"
    by (auto simp: cart_item_product_flushed)
  have second: "\<forall>now' u' data'.
              status (fst (dispatch (create_order now' u' uid data' db) db)) \<noteq> 201 \<longrightarrow>
              snd (dispatch (create_order now' u' uid data' db) db) = db"
    by (simp add: create_order_failure_keeps_db)
  from first second show ?thesis
    by (rule conjI)
qed

theorem order_all_or_nothing_witness:
  "dispatch (create_order t1 0 1 [(''shipping_address_id'', JInt 1)]
       (shop\<lparr>products := [widget, gadget\<lparr>p_stock := 0\<rparr>, relic]\<rparr>))
     (shop\<lparr>products := [widget, gadget\<lparr>p_stock := 0\<rparr>, relic]\<rparr>) =
   (jsonify (error_json ''Product Gadget is not available or not enough in stock'') 400,
    shop\<lparr>products := [widget, gadget\<lparr>p_stock := 0\<rparr>, relic]\<rparr>)"
proof -
  let ?data = "[(''shipping_address_id'', JInt 1)]"
  let ?sold_out = "gadget\<lparr>p_stock := 0\<rparr>"
  let ?db = "shop\<lparr>products := [widget, ?sold_out, relic]\<rparr>"
  have rows: "users ?db = [alice, root]" "addresses ?db = [home]" "orders ?db = []"
    "cart_items ?db = [line1, line2]" "products ?db = [widget, ?sold_out, relic]"
    by (simp_all add: shop_def)
  have ids: "u_id alice = 1" "a_id home = 1" "a_user_id home = 1"
    "ci_user_id line1 = 1" "ci_user_id line2 = 1" "ci_product_id line1 = 1" "ci_product_id line2 = 2"
    "ci_quantity line1 = 2" "ci_quantity line2 = 1"
    "p_id widget = 1" "p_id gadget = 2" "p_is_active widget" "p_stock widget = 5"
    "p_name gadget = ''Gadget''"
    by (simp_all add: alice_def home_def line1_def line2_def widget_def gadget_def)
  have user: "find (\<lambda>x. u_id x = 1) (users ?db) = Some alice"
    by (simp add: rows ids)
  have key: "has_key ?data ''shipping_address_id''"
    by (simp add: has_key_def)
  have shipping: "find (\<lambda>a. key_eq (a_id a) (dict_get ?data ''shipping_address_id'' JNull) \<and>
      a_user_id a = 1) (addresses ?db) = Some home"
    by (simp add: rows ids key_eq_def dict_get_def)
  have billing: "find (\<lambda>a. key_eq (a_id a)
      (dict_get ?data ''billing_address_id'' (dict_get ?data ''shipping_address_id'' JNull)) \<and>
      a_user_id a = 1) (addresses ?db) = Some home"
    by (simp add: rows ids key_eq_def dict_get_def)
  have fresh: "order_number_of 0 \<notin> set (map o_order_number (orders ?db))"
    by (simp add: rows)
  have unique: "cart_unique ?db"
    by (simp add: cart_unique_def rows ids)
  have cart: "cart_of ?db 1 = [line1, line2]"
    by (simp add: cart_of_def rows ids)
  have first: "cart_item_product ?db line1 = Some widget"
    and second: "cart_item_product ?db line2 = Some ?sold_out"
    by (simp_all add: cart_item_product_def rows ids)
  have fk: "\<forall>ci\<in>set (cart_of ?db 1). cart_item_product ?db ci \<noteq> None"
    by (simp add: cart first second)
  have short: "\<exists>ci\<in>set (cart_of ?db 1). \<exists>p. cart_item_product ?db ci = Some p \<and>
      (\<not> p_is_active p \<or> p_stock p < ci_quantity ci)"
    by (simp add: cart first second ids)
  from order_all_or_nothing [OF user key shipping billing fresh unique fk short, of t1]
  obtain ci p where ci: "ci \<in> set (cart_of ?db 1)" and p: "cart_item_product ?db ci = Some p"
    and off: "\<not> p_is_active p \<or> p_stock p < ci_quantity ci"
    and answer: "dispatch (create_order t1 0 1 ?data ?db) ?db =
      (jsonify (error_json (''Product '' @ p_name p @ '' is not available or not enough in stock'')) 400,
       ?db)"
    by blast
  from ci p off have "p = ?sold_out"
    by (auto simp: cart first second ids)
  with answer show ?thesis
    by (simp add: ids)
qed

section \<open>Orders that are placed\<close>














end
